theory Spec2Isabelle
  imports Main "HOL-Library.Sublist"
begin

section \<open>JavaScript values and strings\<close>

text \<open>
  The script \<^verbatim>\<open>vdc.js\<close> is one asynchronous function: two workflows
  (\<^verbatim>\<open>vdcPower\<close>, \<^verbatim>\<open>sshCommand\<close>), the Caporal command table and the
  dispatch on the parsed command. Everything it does is input and output, so the model
  threads an event trace through every step and takes the outside world (prompt, HTTP
  backend, SSH hosts, terminal styling) as a parameter.

  Strings are \<^typ>\<open>string\<close>; a character stands for one code unit below 256, so the
  line terminators among them are LF and CR and the white space of \<^verbatim>\<open>\s\<close> is
  TAB, LF, VT, FF, CR, SPACE and NBSP.
\<close>

datatype jsval = JUndefined | JNull | JBool bool | JNum int | JStr string

text \<open>The \<^verbatim>\<open>typeof\<close> operator.\<close>

fun typeof :: "jsval \<Rightarrow> string" where
  "typeof JUndefined = ''undefined''"
| "typeof JNull = ''object''"
| "typeof (JBool b) = ''boolean''"
| "typeof (JNum n) = ''number''"
| "typeof (JStr s) = ''string''"

fun digits :: "nat \<Rightarrow> string" where
  "digits n =
     (if n < 10 then [char_of (48 + n)]
      else digits (n div 10) @ [char_of (48 + n mod 10)])"

text \<open>String conversion, as a template literal \<^verbatim>\<open>${v}\<close> applies it.\<close>

fun js_str :: "jsval \<Rightarrow> string" where
  "js_str JUndefined = ''undefined''"
| "js_str JNull = ''null''"
| "js_str (JBool b) = (if b then ''true'' else ''false'')"
| "js_str (JNum n) = (if n < 0 then CHR ''-'' # digits (nat (- n)) else digits (nat n))"
| "js_str (JStr s) = s"

definition is_line_terminator :: "char \<Rightarrow> bool" where
  "is_line_terminator c \<longleftrightarrow> c = CHR 0x0A \<or> c = CHR 0x0D"

definition is_white_space :: "char \<Rightarrow> bool" where
  "is_white_space c \<longleftrightarrow>
     c = CHR 0x09 \<or> c = CHR 0x0A \<or> c = CHR 0x0B \<or> c = CHR 0x0C \<or> c = CHR 0x0D \<or>
     c = CHR 0x20 \<or> c = CHR 0xA0"

text \<open>
  \<^verbatim>\<open>s.split(/,/)\<close>: the pieces between the commas, in order; the empty string
  gives one empty piece.
\<close>

fun split_comma :: "string \<Rightarrow> string list" where
  "split_comma [] = [[]]"
| "split_comma (c # cs) =
     (if c = CHR '','' then [] # split_comma cs
      else (c # hd (split_comma cs)) # tl (split_comma cs))"

text \<open>
  \<^verbatim>\<open>text.match(/MARKER\s*'(.+?)'/)\<close> for a literal marker: the capture group of the
  leftmost match, or \<open>None\<close> where JavaScript returns \<^verbatim>\<open>null\<close>. After the marker
  come any white space, a quote, one character that is not a line terminator (it may
  be a quote), and then the shortest run of such characters up to the next quote.
\<close>

fun lazy_until_quote :: "string \<Rightarrow> string option" where
  "lazy_until_quote [] = None"
| "lazy_until_quote (c # cs) =
     (if c = CHR 0x27 then Some []
      else if is_line_terminator c then None
      else map_option ((#) c) (lazy_until_quote cs))"

definition match_here :: "string \<Rightarrow> string \<Rightarrow> string option" where
  "match_here marker s =
     (if take (length marker) s = marker then
        (case dropWhile is_white_space (drop (length marker) s) of
           q # c # rest \<Rightarrow>
             if q = CHR 0x27 \<and> \<not> is_line_terminator c
             then map_option ((#) c) (lazy_until_quote rest) else None
         | _ \<Rightarrow> None)
      else None)"

fun match_marker :: "string \<Rightarrow> string \<Rightarrow> string option" where
  "match_marker marker [] = match_here marker []"
| "match_marker marker (c # cs) =
     (case match_here marker (c # cs) of
        Some g \<Rightarrow> Some g
      | None \<Rightarrow> match_marker marker cs)"

text \<open>
  \<^verbatim>\<open>s.replace(/^/mg, replacement)\<close>. The pattern matches the empty string at index 0
  and behind every line terminator, the end of the string included. The replacement is
  a string, so \<^verbatim>\<open>String.prototype.replace\<close> expands its dollar patterns at every
  match: \<^verbatim>\<open>$$\<close> is a dollar sign, \<^verbatim>\<open>$&\<close> the matched text (here empty),
  \<^verbatim>\<open>$`\<close> the text before the match and \<^verbatim>\<open>$'\<close> the text behind it. The
  pattern has no group, so every other dollar sign stands for itself.
\<close>

fun get_substitution :: "string \<Rightarrow> string \<Rightarrow> string \<Rightarrow> string" where
  "get_substitution left right [] = []"
| "get_substitution left right [c] = [c]"
| "get_substitution left right (c # d # r) =
     (if c = CHR ''$'' \<and> d = CHR ''$'' then CHR ''$'' # get_substitution left right r
      else if c = CHR ''$'' \<and> d = CHR ''&'' then get_substitution left right r
      else if c = CHR ''$'' \<and> d = CHR 0x60 then left @ get_substitution left right r
      else if c = CHR ''$'' \<and> d = CHR 0x27 then right @ get_substitution left right r
      else c # get_substitution left right (d # r))"

fun replace_scan :: "string \<Rightarrow> string \<Rightarrow> string \<Rightarrow> string" where
  "replace_scan replacement left [] = []"
| "replace_scan replacement left (c # cs) =
     c # (if is_line_terminator c
          then get_substitution (left @ [c]) cs replacement
                 @ replace_scan replacement (left @ [c]) cs
          else replace_scan replacement (left @ [c]) cs)"

definition replace_line_starts :: "string \<Rightarrow> string \<Rightarrow> string" where
  "replace_line_starts replacement s =
     get_substitution [] s replacement @ replace_scan replacement [] s"

text \<open>The lines of a text as \<^verbatim>\<open>/^/m\<close> sees them, each with its terminator.\<close>

fun js_lines :: "string \<Rightarrow> string list" where
  "js_lines [] = [[]]"
| "js_lines (c # cs) =
     (if is_line_terminator c then [c] # js_lines cs
      else (c # hd (js_lines cs)) # tl (js_lines cs))"

section \<open>Errors, requests and the outside world\<close>

text \<open>
  An \<open>Error\<close> is thrown by the script itself (\<^verbatim>\<open>new Error(message)\<close>), a
  \<open>TypeError\<close> by the engine, and a \<open>Rejected\<close> value is what a library promise
  rejected with, given by its string conversion.
\<close>

datatype error = Error string | TypeError string | Rejected string

fun err_str :: "error \<Rightarrow> string" where
  "err_str (Error m) = (if m = [] then ''Error'' else ''Error: '' @ m)"
| "err_str (TypeError m) = (if m = [] then ''TypeError'' else ''TypeError: '' @ m)"
| "err_str (Rejected s) = s"

text \<open>
  The options object Caporal hands to the action. An option that was not given and has
  no default is \<open>JUndefined\<close>. The workflows write the typed password into it.
\<close>

record opts =
  location :: jsval
  username :: jsval
  password :: jsval

text \<open>
  The JSON bodies the script sends: \<^verbatim>\<open>{email, password, hash, force_login, lang}\<close>
  to the login endpoint and \<^verbatim>\<open>{power}\<close> to a server's power endpoint.
\<close>

datatype http_body =
    NoBody
  | LoginBody jsval jsval string bool string
  | PowerBody bool

record http_request =
  req_verb :: string
  req_url :: string
  req_accept :: "string option"
  req_headers :: "(string \<times> string) list"
  req_body :: http_body
  req_proxy :: "string option"

text \<open>A server of the listing; the script reads its display name only.\<close>

record server =
  name :: string

text \<open>
  A response: \<^verbatim>\<open>res.text\<close>, and \<^verbatim>\<open>res.body.servers\<close> as the entries of that
  object in the order \<^verbatim>\<open>Object.keys\<close> enumerates them (\<open>None\<close> when the body has
  no such member).
\<close>

record http_response =
  res_text :: string
  res_body_servers :: "(string \<times> server) list option"

record ssh_config =
  ssh_host :: string
  ssh_username :: jsval
  ssh_password :: jsval
  ssh_readyTimeout :: nat

text \<open>
  What the script does to the outside, in the order it does it: the password prompt
  with its message, an HTTP request, the opening of an SSH connection, a command run on
  the connection to a host (with the \<^verbatim>\<open>pty\<close> flag), a line written by
  \<^verbatim>\<open>console.log\<close>, and a pause of so many milliseconds.
\<close>

datatype event =
    Prompt string
  | Request http_request
  | Connect ssh_config
  | Exec string string bool
  | Log string
  | Timeout nat

text \<open>
  The world is everything the script does not decide: the host identifier, the proxy
  variable of the environment, what the user types at a prompt, what the backend
  answers to a request, whether a host accepts a connection and what a command prints
  there, how chalk styles a text, how \<^verbatim>\<open>util.inspect\<close> dumps an error, and the
  texts of the two \<open>TypeError\<close>s of the engine (destructuring \<^verbatim>\<open>null\<close>, and
  \<^verbatim>\<open>Object.keys\<close> of \<^verbatim>\<open>undefined\<close>). A call that is rejected gives \<open>Inl\<close>.
  The world answers every call from the history so far and the call itself, so a
  backend may answer the same request differently the second time.
\<close>

record world =
  HostId :: string
  env_http_proxy :: "string option"
  inquirer_prompt :: "event list \<Rightarrow> string \<Rightarrow> error + string"
  http :: "event list \<Rightarrow> http_request \<Rightarrow> error + http_response"
  ssh_connect :: "event list \<Rightarrow> ssh_config \<Rightarrow> error + unit"
  ssh_execCommand :: "event list \<Rightarrow> string \<Rightarrow> string \<Rightarrow> error + string"
  chalk_blue :: "string \<Rightarrow> string"
  chalk_red :: "string \<Rightarrow> string"
  util_inspect :: "error \<Rightarrow> string"
  msg_not_iterable :: string
  msg_not_object :: string

section \<open>Asynchronous steps\<close>

text \<open>
  A step takes the trace so far and returns its result, or the error it threw, with
  the trace extended. \<open>io_bind\<close> is \<^verbatim>\<open>await\<close> followed by the rest of the function:
  an error skips the rest.
\<close>

type_synonym 'a io = "event list \<Rightarrow> (error + 'a) \<times> event list"

definition io_return :: "'a \<Rightarrow> 'a io" where
  "io_return x = (\<lambda>tr. (Inr x, tr))"

definition io_throw :: "error \<Rightarrow> 'a io" where
  "io_throw e = (\<lambda>tr. (Inl e, tr))"

definition io_bind :: "'a io \<Rightarrow> ('a \<Rightarrow> 'b io) \<Rightarrow> 'b io" where
  "io_bind m f =
     (\<lambda>tr. case m tr of (Inl e, tr') \<Rightarrow> (Inl e, tr') | (Inr x, tr') \<Rightarrow> f x tr')"

definition io_await :: "event \<Rightarrow> (event list \<Rightarrow> error + 'a) \<Rightarrow> 'a io" where
  "io_await ev answer = (\<lambda>tr. (answer tr, tr @ [ev]))"

definition console_log :: "string \<Rightarrow> unit io" where
  "console_log s = (\<lambda>tr. (Inr (), tr @ [Log s]))"

definition setTimeout :: "nat \<Rightarrow> unit io" where
  "setTimeout ms = (\<lambda>tr. (Inr (), tr @ [Timeout ms]))"

text \<open>
  \<^verbatim>\<open>Bluebird.each\<close>: the iterator runs on one element after the other and the first
  rejection ends the iteration. The extra argument carries the variables the iterator
  updates from one call to the next.
\<close>

fun bluebird_each :: "('a \<Rightarrow> 's \<Rightarrow> 's io) \<Rightarrow> 'a list \<Rightarrow> 's \<Rightarrow> 's io" where
  "bluebird_each f [] s = io_return s"
| "bluebird_each f (x # xs) s =
     (\<lambda>tr. case f x s tr of
             (Inl e, tr') \<Rightarrow> (Inl e, tr')
           | (Inr s', tr') \<Rightarrow> bluebird_each f xs s' tr')"

section \<open>The power workflow\<close>

text \<open>
  \<^verbatim>\<open>name2id\<close> is an ordinary object literal used as a table. Its own properties are
  a map. The assignment \<^verbatim>\<open>name2id[k] = v\<close> adds or overwrites the property, except
  for the key \<^verbatim>\<open>__proto__\<close>: that is the accessor of \<^verbatim>\<open>Object.prototype\<close>, whose
  setter ignores a value that is neither an object nor \<^verbatim>\<open>null\<close>, so the assignment
  of a string leaves the object as it was.

  A read \<^verbatim>\<open>name2id[k]\<close> of a key with no own property gives a member of
  \<^verbatim>\<open>Object.prototype\<close> (a function, or the prototype itself) or \<^verbatim>\<open>undefined\<close>;
  none of these is a string. So \<^verbatim>\<open>typeof id !== "string"\<close> holds exactly when the
  map has no entry, and \<open>obj_get\<close> is the lookup of the map.
\<close>

definition obj_set :: "(string \<rightharpoonup> string) \<Rightarrow> string \<Rightarrow> string \<Rightarrow> (string \<rightharpoonup> string)" where
  "obj_set obj k v = (if k = ''__proto__'' then obj else obj(k \<mapsto> v))"

definition obj_get :: "(string \<rightharpoonup> string) \<Rightarrow> string \<Rightarrow> string option" where
  "obj_get obj k = obj k"

text \<open>Lines 30 to 38: the password is asked for when the option is not a string.\<close>

definition vdcPower_password :: "world \<Rightarrow> opts \<Rightarrow> opts io" where
  "vdcPower_password w opts =
     (if typeof (password opts) \<noteq> ''string'' then
        io_bind
          (io_await (Prompt (js_str (username opts) @ '' vDC password:''))
             (\<lambda>tr. inquirer_prompt w tr (js_str (username opts) @ '' vDC password:'')))
          (\<lambda>answer. io_return (opts\<lparr>password := JStr answer\<rparr>))
      else io_return opts)"

text \<open>
  Line 26: \<^verbatim>\<open>HostId().replace(/-/g, "")\<close>. Lines 40 to 46: every request of the
  session goes through one agent, which uses the proxy of the environment if there is
  one.
\<close>

definition hostid :: "world \<Rightarrow> string" where
  "hostid w = filter (\<lambda>c. c \<noteq> CHR ''-'') (HostId w)"

definition login_request :: "world \<Rightarrow> opts \<Rightarrow> http_request" where
  "login_request w opts =
     \<lparr>req_verb = ''POST'', req_url = js_str (location opts) @ ''/api/login'',
      req_accept = Some ''application/json'', req_headers = [],
      req_body = LoginBody (username opts) (password opts) (hostid w) True ''en'',
      req_proxy = env_http_proxy w\<rparr>"

definition panel_request :: "world \<Rightarrow> opts \<Rightarrow> http_request" where
  "panel_request w opts =
     \<lparr>req_verb = ''GET'', req_url = js_str (location opts) @ ''/Panel/'',
      req_accept = None, req_headers = [], req_body = NoBody,
      req_proxy = env_http_proxy w\<rparr>"

record session =
  apiUser :: string
  apiToken :: string
  apiURL :: string

definition servers_request :: "world \<Rightarrow> session \<Rightarrow> http_request" where
  "servers_request w s =
     \<lparr>req_verb = ''GET'', req_url = apiURL s @ ''/objects/servers'',
      req_accept = Some ''application/json'',
      req_headers = [(''X-Auth-UserId'', apiUser s), (''X-Auth-Token'', apiToken s)],
      req_body = NoBody, req_proxy = env_http_proxy w\<rparr>"

definition power_request :: "world \<Rightarrow> session \<Rightarrow> string \<Rightarrow> bool \<Rightarrow> http_request" where
  "power_request w s ident level =
     \<lparr>req_verb = ''PATCH'', req_url = apiURL s @ ''/objects/servers/'' @ ident @ ''/power'',
      req_accept = Some ''application/json'',
      req_headers = [(''X-Auth-UserId'', apiUser s), (''X-Auth-Token'', apiToken s)],
      req_body = PowerBody level, req_proxy = env_http_proxy w\<rparr>"

text \<open>
  Lines 48 to 65: login, then the panel page and its three credentials. A pattern that
  does not match gives \<^verbatim>\<open>null\<close>, and the array destructuring of \<^verbatim>\<open>null\<close> throws
  a \<open>TypeError\<close>.
\<close>

definition vdcPower_session :: "world \<Rightarrow> opts \<Rightarrow> session io" where
  \<open>vdcPower_session w opts =
     io_bind (io_await (Request (login_request w opts)) (\<lambda>tr. http w tr (login_request w opts)))
       (\<lambda>res.
     io_bind (io_await (Request (panel_request w opts)) (\<lambda>tr. http w tr (panel_request w opts)))
       (\<lambda>res.
     (case match_marker ''"user":'' (res_text res) of
        None \<Rightarrow> io_throw (TypeError (msg_not_iterable w))
      | Some user \<Rightarrow>
     (case match_marker ''"token":'' (res_text res) of
        None \<Rightarrow> io_throw (TypeError (msg_not_iterable w))
      | Some token \<Rightarrow>
     (case match_marker ''"api":'' (res_text res) of
        None \<Rightarrow> io_throw (TypeError (msg_not_iterable w))
      | Some api \<Rightarrow>
          io_return \<lparr>apiUser = user, apiToken = token, apiURL = api\<rparr>)))))\<close>

text \<open>
  Lines 67 to 78: the server list and the table from names to identifiers.
  \<^verbatim>\<open>Object.keys(undefined)\<close> throws a \<open>TypeError\<close>.
\<close>

definition name2id_of :: "(string \<times> server) list \<Rightarrow> (string \<rightharpoonup> string)" where
  "name2id_of servers =
     fold (\<lambda>(ident, server) name2id. obj_set name2id (name server) ident) servers Map.empty"

definition vdcPower_servers :: "world \<Rightarrow> session \<Rightarrow> (string \<rightharpoonup> string) io" where
  "vdcPower_servers w s =
     io_bind (io_await (Request (servers_request w s)) (\<lambda>tr. http w tr (servers_request w s)))
       (\<lambda>res.
     (case res_body_servers res of
        None \<Rightarrow> io_throw (TypeError (msg_not_object w))
      | Some servers \<Rightarrow> io_return (name2id_of servers)))"

text \<open>
  Lines 84 to 100: the iterator of the loop over the names. \<open>vmcur\<close> counts the power
  calls made; the pause follows a call unless it was the last of the list.
\<close>

definition vdcPower_each ::
  "world \<Rightarrow> bool \<Rightarrow> session \<Rightarrow> (string \<rightharpoonup> string) \<Rightarrow> nat \<Rightarrow> string \<Rightarrow> nat \<Rightarrow> nat io" where
  \<open>vdcPower_each w level s name2id vmmax vm vmcur =
     (case obj_get name2id vm of
        None \<Rightarrow> io_throw (Error (''invalid VM name "'' @ vm @ ''"''))
      | Some ident \<Rightarrow>
          io_bind (console_log (chalk_blue w vm @ '': switching power ''
                     @ (if level then ''on'' else ''off'')))
            (\<lambda>_.
          io_bind (io_await (Request (power_request w s ident level))
                     (\<lambda>tr. http w tr (power_request w s ident level)))
            (\<lambda>res.
          if vmcur + 1 < vmmax
          then io_bind (setTimeout (10 * 1000)) (\<lambda>_. io_return (vmcur + 1))
          else io_return (vmcur + 1))))\<close>

definition vdcPower_loop :: "world \<Rightarrow> bool \<Rightarrow> string \<Rightarrow> session \<Rightarrow> (string \<rightharpoonup> string) \<Rightarrow> nat io" where
  "vdcPower_loop w level vms s name2id =
     bluebird_each (vdcPower_each w level s name2id (length (split_comma vms)))
       (split_comma vms) 0"

definition vdcPower :: "world \<Rightarrow> bool \<Rightarrow> string \<Rightarrow> opts \<Rightarrow> unit io" where
  "vdcPower w level vms opts =
     io_bind (vdcPower_password w opts) (\<lambda>opts.
     io_bind (vdcPower_session w opts) (\<lambda>s.
     io_bind (vdcPower_servers w s) (\<lambda>name2id.
     io_bind (vdcPower_loop w level vms s name2id) (\<lambda>_. io_return ()))))"

section \<open>The remote command workflow\<close>

text \<open>Lines 106 to 114.\<close>

definition sshCommand_password :: "world \<Rightarrow> opts \<Rightarrow> opts io" where
  "sshCommand_password w opts =
     (if typeof (password opts) \<noteq> ''string'' then
        io_bind
          (io_await (Prompt (js_str (username opts) @ '' SSH password:''))
             (\<lambda>tr. inquirer_prompt w tr (js_str (username opts) @ '' SSH password:'')))
          (\<lambda>answer. io_return (opts\<lparr>password := JStr answer\<rparr>))
      else io_return opts)"

definition connect_config :: "opts \<Rightarrow> string \<Rightarrow> ssh_config" where
  "connect_config opts h =
     \<lparr>ssh_host = h, ssh_username = username opts, ssh_password = password opts,
      ssh_readyTimeout = 5 * 1000\<rparr>"

definition ssh_prefix :: "opts \<Rightarrow> string \<Rightarrow> string" where
  "ssh_prefix opts h = js_str (username opts) @ ''@'' @ h @ '': ''"

text \<open>
  Lines 118 to 130: the iterator of the loop over the hosts. The command runs on the
  connection just opened, with a pseudo terminal.
\<close>

definition sshCommand_each :: "world \<Rightarrow> string \<Rightarrow> opts \<Rightarrow> string \<Rightarrow> unit \<Rightarrow> unit io" where
  "sshCommand_each w cmd opts h u =
     io_bind (console_log (chalk_blue w (ssh_prefix opts h) @ ''$ '' @ cmd)) (\<lambda>_.
     io_bind (io_await (Connect (connect_config opts h))
                (\<lambda>tr. ssh_connect w tr (connect_config opts h))) (\<lambda>_.
     io_bind (io_await (Exec h cmd True) (\<lambda>tr. ssh_execCommand w tr h cmd)) (\<lambda>stdout.
     if stdout \<noteq> []
     then console_log (replace_line_starts (chalk_blue w (ssh_prefix opts h)) stdout)
     else io_return ())))"

definition sshCommand :: "world \<Rightarrow> string \<Rightarrow> string \<Rightarrow> opts \<Rightarrow> unit io" where
  "sshCommand w cmd hosts opts =
     io_bind (sshCommand_password w opts) (\<lambda>opts.
     bluebird_each (sshCommand_each w cmd opts) (split_comma hosts) ())"

section \<open>Command table and dispatch\<close>

text \<open>
  Lines 140 to 166 declare three commands to Caporal. An option is declared by its
  synopsis, its description, a validator and a default value; \<open>JUndefined\<close> stands for
  a parameter left out.
\<close>

record option_decl =
  synopsis :: string
  description :: string
  validator :: "string option"
  default_value :: jsval

record command_decl =
  decl_name :: string
  decl_description :: string
  decl_alias :: "string list"
  decl_options :: "option_decl list"
  decl_arguments :: "(string \<times> string) list"
  decl_action :: string

definition power_on_decl :: command_decl where
  "power_on_decl =
     \<lparr>decl_name = ''power-on'', decl_description = ''Switch power of a VM ON via vDC'',
      decl_alias = [''on''],
      decl_options =
        [\<lparr>synopsis = ''-l, --location <url>'', description = ''The vDC URL'',
          validator = Some ''^http'', default_value = JStr ''https://vdc.msg.systems''\<rparr>,
         \<lparr>synopsis = ''-u, --username <username>'',
          description = ''The vDC login username (usually the Email address)'',
          validator = None, default_value = JUndefined\<rparr>,
         \<lparr>synopsis = ''-p, --password <password>'', description = ''The vDC login password'',
          validator = None, default_value = JUndefined\<rparr>],
      decl_arguments = [(''<vm-name>'', ''Name of VM(s)'')],
      decl_action = ''power-on''\<rparr>"

definition power_off_decl :: command_decl where
  "power_off_decl =
     \<lparr>decl_name = ''power-off'', decl_description = ''Switch power of a VM OFF via vDC'',
      decl_alias = [''off''],
      decl_options =
        [\<lparr>synopsis = ''-l, --location <url>'', description = ''The vDC URL'',
          validator = Some ''^http'', default_value = JStr ''https://vdc.msg.systems''\<rparr>,
         \<lparr>synopsis = ''-u, --username <username>'',
          description = ''The vDC login username (usually the Email address)'',
          validator = None, default_value = JUndefined\<rparr>,
         \<lparr>synopsis = ''-p, --password <password>'', description = ''The vDC login password'',
          validator = None, default_value = JUndefined\<rparr>],
      decl_arguments = [(''<vm-name>'', ''Name of VM(s)'')],
      decl_action = ''power-off''\<rparr>"

definition exec_decl :: command_decl where
  "exec_decl =
     \<lparr>decl_name = ''exec'', decl_description = ''Execute a shell command under an OS via SSH'',
      decl_alias = [],
      decl_options =
        [\<lparr>synopsis = ''-u, --username <username>'', description = ''The OS login username'',
          validator = Some ''^.+$'', default_value = JStr ''root''\<rparr>,
         \<lparr>synopsis = ''-p, --password <password>'', description = ''The OS login password'',
          validator = None, default_value = JUndefined\<rparr>],
      decl_arguments =
        [(''<host-name>'', ''Name of host(s)''), (''<command>'', ''Command to execute'')],
      decl_action = ''exec''\<rparr>"

text \<open>
  How Caporal fills the options object it hands to the action (the library is not part
  of the script; this is its documented handling of the default parameter): an option
  has the value given on the command line, else the default of its declaration. An
  option is known by the long name of its synopsis.
\<close>

fun long_name :: "string \<Rightarrow> string" where
  "long_name [] = []"
| "long_name [c] = []"
| "long_name (c # d # r) =
     (if c = CHR ''-'' \<and> d = CHR ''-'' then takeWhile (\<lambda>x. x \<noteq> CHR '' '') r
      else long_name (d # r))"

definition option_value :: "command_decl \<Rightarrow> (string \<rightharpoonup> jsval) \<Rightarrow> string \<Rightarrow> jsval" where
  "option_value decl given k =
     (case given k of
        Some v \<Rightarrow> v
      | None \<Rightarrow>
          (case find (\<lambda>d. long_name (synopsis d) = k) (decl_options decl) of
             Some d \<Rightarrow> default_value d
           | None \<Rightarrow> JUndefined))"

definition caporal_opts :: "command_decl \<Rightarrow> (string \<rightharpoonup> jsval) \<Rightarrow> opts" where
  "caporal_opts decl given =
     \<lparr>location = option_value decl given ''location'',
      username = option_value decl given ''username'',
      password = option_value decl given ''password''\<rparr>"

text \<open>
  Lines 136 to 139 and 169 to 185. The action of the matched command stores its name,
  arguments and options in \<^verbatim>\<open>command\<close>; \<open>None\<close> is the \<^verbatim>\<open>null\<close> it holds when no
  action ran. \<open>main\<close> gives the exit status and everything that happened before it.
\<close>

record args =
  vmName :: string
  hostName :: string
  command :: string

record cmd =
  cmd_name :: string
  cmd_args :: args
  cmd_opts :: opts

definition dispatch :: "world \<Rightarrow> cmd \<Rightarrow> unit io" where
  "dispatch w c =
     (if cmd_name c = ''power-on'' then vdcPower w True (vmName (cmd_args c)) (cmd_opts c)
      else if cmd_name c = ''power-off'' then vdcPower w False (vmName (cmd_args c)) (cmd_opts c)
      else if cmd_name c = ''exec''
        then sshCommand w (command (cmd_args c)) (hostName (cmd_args c)) (cmd_opts c)
      else io_return ())"

definition error_handler :: "world \<Rightarrow> error \<Rightarrow> event list" where
  "error_handler w err =
     [Log (''vdc: '' @ chalk_red w ''ERROR'' @ '': '' @ err_str err),
      Log (''vdc: '' @ chalk_red w ''ERROR'' @ '': '' @ util_inspect w err)]"

definition main :: "world \<Rightarrow> cmd option \<Rightarrow> nat \<times> event list" where
  "main w parsed =
     (case parsed of
        None \<Rightarrow> (1, [])
      | Some c \<Rightarrow>
          (case dispatch w c [] of
             (Inl err, tr) \<Rightarrow> (1, tr @ error_handler w err)
           | (Inr u, tr) \<Rightarrow> (0, tr)))"

section \<open>What a trace shows\<close>

text \<open>
  The power calls of a trace (the \<^verbatim>\<open>PATCH\<close> requests), the time spent in pauses, the
  connections opened and the prompts shown.
\<close>

fun power_calls :: "event list \<Rightarrow> http_request list" where
  "power_calls [] = []"
| "power_calls (Request r # tr) =
     (if req_verb r = ''PATCH'' then r # power_calls tr else power_calls tr)"
| "power_calls (ev # tr) = power_calls tr"

fun total_delay :: "event list \<Rightarrow> nat" where
  "total_delay [] = 0"
| "total_delay (Timeout ms # tr) = ms + total_delay tr"
| "total_delay (ev # tr) = total_delay tr"

fun connections :: "event list \<Rightarrow> ssh_config list" where
  "connections [] = []"
| "connections (Connect c # tr) = c # connections tr"
| "connections (ev # tr) = connections tr"

fun prompts :: "event list \<Rightarrow> string list" where
  "prompts [] = []"
| "prompts (Prompt m # tr) = m # prompts tr"
| "prompts (ev # tr) = prompts tr"

text \<open>A step keeps an observation when it leaves it as it was, whatever the trace.\<close>

definition keeps :: "(event list \<Rightarrow> 'b) \<Rightarrow> 'a io \<Rightarrow> bool" where
  "keeps obs m \<longleftrightarrow> (\<forall>tr. obs (snd (m tr)) = obs tr)"

text \<open>
  The events of one power call for a name and its identifier, and of a run of calls
  each followed by the pause of 10 seconds.
\<close>

definition power_call_events :: "world \<Rightarrow> bool \<Rightarrow> session \<Rightarrow> string \<times> string \<Rightarrow> event list" where
  "power_call_events w level s x =
     [Log (chalk_blue w (fst x) @ '': switching power '' @ (if level then ''on'' else ''off'')),
      Request (power_request w s (snd x) level)]"

definition paused_calls :: "world \<Rightarrow> bool \<Rightarrow> session \<Rightarrow> (string \<times> string) list \<Rightarrow> event list" where
  "paused_calls w level s xs =
     concat (map (\<lambda>x. power_call_events w level s x @ [Timeout (10 * 1000)]) xs)"

text \<open>
  The events of one host whose connection and command succeed, where \<open>out h\<close> is the
  standard output captured on host \<open>h\<close>.
\<close>

definition exec_events :: "world \<Rightarrow> string \<Rightarrow> opts \<Rightarrow> (string \<Rightarrow> string) \<Rightarrow> string \<Rightarrow> event list" where
  "exec_events w cmd opts out h =
     [Log (chalk_blue w (ssh_prefix opts h) @ ''$ '' @ cmd),
      Connect (connect_config opts h), Exec h cmd True]
     @ (if out h \<noteq> []
        then [Log (replace_line_starts (chalk_blue w (ssh_prefix opts h)) (out h))] else [])"

text \<open>
  The credential resolver as section 4.1 of the specification describes it: given the
  options and the label of the prompt, a password that is a string is taken as it is;
  otherwise the user is asked and the typed value is written to the options.
\<close>

definition credential_resolver :: "world \<Rightarrow> string \<Rightarrow> opts \<Rightarrow> opts io" where
  "credential_resolver w label opts =
     (case password opts of
        JStr p \<Rightarrow> io_return opts
      | _ \<Rightarrow>
          io_bind
            (io_await (Prompt (js_str (username opts) @ label))
               (\<lambda>tr. inquirer_prompt w tr (js_str (username opts) @ label)))
            (\<lambda>typed. io_return (opts\<lparr>password := JStr typed\<rparr>)))"

section \<open>Example worlds and invocations\<close>

definition example_panel :: string where
  \<open>example_panel = ''{ "user": 'u1', "token": 't0k', "api": 'https://api.example/v1' }''\<close>

definition example_servers :: "(string \<times> server) list" where
  "example_servers =
     [(''id1'', \<lparr>name = ''web1''\<rparr>), (''id2'', \<lparr>name = ''web2''\<rparr>), (''id3'', \<lparr>name = ''web1''\<rparr>)]"

text \<open>
  A world in which the backend and the hosts answer, except for the host \<open>down\<close>,
  which cannot be reached. Styling is off and only host \<open>h1\<close> prints something.
\<close>

definition example_world :: world where
  "example_world =
     \<lparr>HostId = ''ab-cd-ef'', env_http_proxy = None,
      inquirer_prompt = (\<lambda>tr m. Inr ''secret''),
      http = (\<lambda>tr r. Inr \<lparr>res_text = example_panel, res_body_servers = Some example_servers\<rparr>),
      ssh_connect = (\<lambda>tr c. if ssh_host c = ''down'' then Inl (Rejected ''Timed out'') else Inr ()),
      ssh_execCommand = (\<lambda>tr h c. Inr (if h = ''h1'' then ''up 1 day'' else [])),
      chalk_blue = (\<lambda>s. s), chalk_red = (\<lambda>s. s), util_inspect = err_str,
      msg_not_iterable = ''null is not iterable'',
      msg_not_object = ''Cannot convert undefined or null to object''\<rparr>"

definition example_session :: session where
  "example_session = \<lparr>apiUser = ''u1'', apiToken = ''t0k'', apiURL = ''https://api.example/v1''\<rparr>"

definition example_opts :: opts where
  "example_opts =
     \<lparr>location = JStr ''https://vdc.msg.systems'', username = JStr ''me'', password = JStr ''pw''\<rparr>"

text \<open>The same world with a panel page that has no token.\<close>

definition broken_world :: world where
  \<open>broken_world =
     example_world\<lparr>http := (\<lambda>tr r. Inr \<lparr>res_text = ''{ "user": 'u1', "api": 'x' }'',
                                      res_body_servers = Some example_servers\<rparr>)\<rparr>\<close>

text \<open>The same world with two servers that are both called \<^verbatim>\<open>__proto__\<close>.\<close>

definition proto_servers :: "(string \<times> server) list" where
  "proto_servers = [(''id1'', \<lparr>name = ''__proto__''\<rparr>), (''id2'', \<lparr>name = ''__proto__''\<rparr>)]"

definition proto_world :: world where
  "proto_world =
     example_world\<lparr>http := (\<lambda>tr r. Inr \<lparr>res_text = example_panel,
                                      res_body_servers = Some proto_servers\<rparr>)\<rparr>"

definition example_exec :: cmd where
  "example_exec =
     \<lparr>cmd_name = ''exec'',
      cmd_args = \<lparr>vmName = [], hostName = ''h1,down,h2'', command = ''uptime''\<rparr>,
      cmd_opts = \<lparr>location = JUndefined, username = JStr ''root'', password = JStr ''pw''\<rparr>\<rparr>"

definition example_power :: cmd where
  "example_power =
     \<lparr>cmd_name = ''power-on'',
      cmd_args = \<lparr>vmName = ''web1,web2'', hostName = [], command = []\<rparr>,
      cmd_opts = example_opts\<rparr>"

text \<open>Options with a user name that holds two dollar signs.\<close>

definition dollar_opts :: opts where
  "dollar_opts = \<lparr>location = JUndefined, username = JStr ''a$$'', password = JStr ''pw''\<rparr>"

section \<open>Steps and loops\<close>

lemma io_return_apply [simp]: "io_return x tr = (Inr x, tr)"
  by (simp add: io_return_def)

lemma io_throw_apply [simp]: "io_throw e tr = (Inl e, tr)"
  by (simp add: io_throw_def)

lemma io_await_apply [simp]: "io_await ev answer tr = (answer tr, tr @ [ev])"
  by (simp add: io_await_def)

lemma console_log_apply [simp]: "console_log s tr = (Inr (), tr @ [Log s])"
  by (simp add: console_log_def)

lemma setTimeout_apply [simp]: "setTimeout ms tr = (Inr (), tr @ [Timeout ms])"
  by (simp add: setTimeout_def)

lemma io_bind_apply:
  "io_bind m f tr = (case m tr of (Inl e, tr') \<Rightarrow> (Inl e, tr') | (Inr x, tr') \<Rightarrow> f x tr')"
  by (simp add: io_bind_def)

lemma io_bind_Inr [simp]: "m tr = (Inr x, tr') \<Longrightarrow> io_bind m f tr = f x tr'"
  by (simp add: io_bind_def)

lemma io_bind_Inl [simp]: "m tr = (Inl e, tr') \<Longrightarrow> io_bind m f tr = (Inl e, tr')"
  by (simp add: io_bind_def)

lemma bluebird_each_Cons: "bluebird_each f (x # xs) s = io_bind (f x s) (bluebird_each f xs)"
  by (rule ext) (simp add: io_bind_apply)

lemma bluebird_each_append:
  "bluebird_each f (xs @ ys) s tr =
     (case bluebird_each f xs s tr of
        (Inl e, tr') \<Rightarrow> (Inl e, tr')
      | (Inr s', tr') \<Rightarrow> bluebird_each f ys s' tr')"
  by (induction xs arbitrary: s tr) (auto split: prod.splits sum.splits)

lemma split_comma_not_Nil [simp]: "split_comma s \<noteq> []"
  by (induction s) auto

lemma map_snd_zip_same:
  "length xs = length ys \<Longrightarrow> map (\<lambda>x. f (snd x)) (zip xs ys) = map f ys"
  by (induction xs ys rule: list_induct2) simp_all

subsection \<open>Observations of a trace\<close>

lemma power_calls_append [simp]: "power_calls (xs @ ys) = power_calls xs @ power_calls ys"
  by (induction xs rule: power_calls.induct) auto

lemma total_delay_append [simp]: "total_delay (xs @ ys) = total_delay xs + total_delay ys"
  by (induction xs rule: total_delay.induct) auto

lemma connections_append [simp]: "connections (xs @ ys) = connections xs @ connections ys"
  by (induction xs rule: connections.induct) auto

lemma prompts_append [simp]: "prompts (xs @ ys) = prompts xs @ prompts ys"
  by (induction xs rule: prompts.induct) auto

lemma keepsD: "keeps obs m \<Longrightarrow> m tr = (r, tr') \<Longrightarrow> obs tr' = obs tr"
  by (metis keeps_def snd_conv)

lemma keeps_return [simp]: "keeps obs (io_return x)"
  by (simp add: keeps_def)

lemma keeps_throw [simp]: "keeps obs (io_throw e)"
  by (simp add: keeps_def)

lemma keeps_await: "(\<And>tr. obs (tr @ [ev]) = obs tr) \<Longrightarrow> keeps obs (io_await ev answer)"
  by (simp add: keeps_def)

lemma keeps_log: "(\<And>tr. obs (tr @ [Log s]) = obs tr) \<Longrightarrow> keeps obs (console_log s)"
  by (simp add: keeps_def)

lemma keeps_timeout: "(\<And>tr. obs (tr @ [Timeout ms]) = obs tr) \<Longrightarrow> keeps obs (setTimeout ms)"
  by (simp add: keeps_def)

lemma keeps_bind: "keeps obs m \<Longrightarrow> (\<And>x. keeps obs (f x)) \<Longrightarrow> keeps obs (io_bind m f)"
  unfolding keeps_def
proof
  fix tr
  assume m: "\<forall>tr. obs (snd (m tr)) = obs tr"
    and f: "\<And>x. \<forall>tr. obs (snd (f x tr)) = obs tr"
  obtain r tr' where mt: "m tr = (r, tr')" by (cases "m tr")
  then have "obs tr' = obs tr" using m by (metis snd_conv)
  then show "obs (snd (io_bind m f tr)) = obs tr"
    using mt f by (cases r) (simp_all add: io_bind_apply)
qed

lemma keeps_each: "(\<And>x s. keeps obs (f x s)) \<Longrightarrow> keeps obs (bluebird_each f xs s)"
proof (induction xs arbitrary: s)
  case Nil
  show ?case by (simp add: keeps_def)
next
  case (Cons x xs)
  have "keeps obs (io_bind (f x s) (bluebird_each f xs))"
    using Cons by (intro keeps_bind) blast+
  then show ?case by (simp only: bluebird_each_Cons)
qed

lemma obs_bind: "(\<And>x. keeps obs (f x)) \<Longrightarrow> obs (snd (io_bind m f tr)) = obs (snd (m tr))"
  by (cases "m tr") (auto simp: io_bind_apply keeps_def split: sum.splits)

lemma power_calls_call [simp]:
  "power_calls (power_call_events w level s x) = [power_request w s (snd x) level]"
  by (simp add: power_call_events_def power_request_def)

lemma total_delay_call [simp]: "total_delay (power_call_events w level s x) = 0"
  by (simp add: power_call_events_def)

lemma power_calls_paused [simp]:
  "power_calls (paused_calls w level s xs) = map (\<lambda>x. power_request w s (snd x) level) xs"
  by (induction xs) (simp_all add: paused_calls_def)

lemma total_delay_paused [simp]:
  "total_delay (paused_calls w level s xs) = length xs * (10 * 1000)"
  by (induction xs) (simp_all add: paused_calls_def)

lemma power_calls_run:
  assumes "zs \<noteq> []"
  shows "power_calls (paused_calls w level s (butlast zs) @ power_call_events w level s (last zs)) =
           map (\<lambda>x. power_request w s (snd x) level) zs"
proof -
  have "map (\<lambda>x. power_request w s (snd x) level) (butlast zs @ [last zs]) =
          map (\<lambda>x. power_request w s (snd x) level) zs"
    using assms by simp
  then show ?thesis by simp
qed

lemma total_delay_run:
  "total_delay (paused_calls w level s (butlast zs) @ power_call_events w level s (last zs)) =
     (length zs - 1) * (10 * 1000)"
  by simp

subsection \<open>The steps before the power loop\<close>

lemma vdcPower_password_keeps:
  "keeps power_calls (vdcPower_password w opts)" "keeps total_delay (vdcPower_password w opts)"
  by (simp_all add: vdcPower_password_def keeps_bind keeps_await)

lemma vdcPower_session_keeps:
  "keeps power_calls (vdcPower_session w opts)" "keeps total_delay (vdcPower_session w opts)"
  "keeps prompts (vdcPower_session w opts)"
  by (simp_all add: vdcPower_session_def keeps_bind keeps_await login_request_def
        panel_request_def split: option.splits)

lemma vdcPower_servers_keeps:
  "keeps power_calls (vdcPower_servers w s)" "keeps total_delay (vdcPower_servers w s)"
  "keeps prompts (vdcPower_servers w s)"
  by (simp_all add: vdcPower_servers_def keeps_bind keeps_await servers_request_def
        split: option.splits)

lemma vdcPower_loop_keeps: "keeps prompts (vdcPower_loop w level vms s name2id)"
  unfolding vdcPower_loop_def
  by (rule keeps_each)
     (simp add: vdcPower_each_def keeps_bind keeps_await keeps_log keeps_timeout
        split: option.splits)

lemma vdcPower_steps:
  assumes "vdcPower_password w opts tr = (Inr opts', tr1)"
    and "vdcPower_session w opts' tr1 = (Inr s, tr2)"
    and "vdcPower_servers w s tr2 = (Inr name2id, tr3)"
  shows "vdcPower w level vms opts tr =
           (case vdcPower_loop w level vms s name2id tr3 of
              (Inl e, tr') \<Rightarrow> (Inl e, tr')
            | (Inr n, tr') \<Rightarrow> (Inr (), tr'))"
    and "power_calls tr3 = power_calls tr"
    and "total_delay tr3 = total_delay tr"
proof -
  show "vdcPower w level vms opts tr =
           (case vdcPower_loop w level vms s name2id tr3 of
              (Inl e, tr') \<Rightarrow> (Inl e, tr')
            | (Inr n, tr') \<Rightarrow> (Inr (), tr'))"
    using assms by (simp add: vdcPower_def io_bind_apply split: prod.splits sum.splits)
  show "power_calls tr3 = power_calls tr"
    using assms vdcPower_password_keeps(1) vdcPower_session_keeps(1) vdcPower_servers_keeps(1)
    by (metis keepsD)
  show "total_delay tr3 = total_delay tr"
    using assms vdcPower_password_keeps(2) vdcPower_session_keeps(2) vdcPower_servers_keeps(2)
    by (metis keepsD)
qed

section \<open>The power loop\<close>

lemma vdcPower_each_resolved:
  assumes "obj_get name2id vm = Some i"
    and "http w (tr @ [Log (chalk_blue w vm @ '': switching power ''
                        @ (if level then ''on'' else ''off''))])
           (power_request w s i level) = Inr res"
  shows "vdcPower_each w level s name2id vmmax vm vmcur tr =
           (Inr (vmcur + 1),
            tr @ power_call_events w level s (vm, i)
               @ (if vmcur + 1 < vmmax then [Timeout (10 * 1000)] else []))"
  using assms by (simp add: vdcPower_each_def power_call_events_def)

lemma vdcPower_each_unresolved:
  \<open>obj_get name2id vm = None \<Longrightarrow>
     vdcPower_each w level s name2id vmmax vm vmcur tr =
       (Inl (Error (''invalid VM name "'' @ vm @ ''"'')), tr)\<close>
  by (simp add: vdcPower_each_def)

text \<open>Names that are not the last of the list: every call is followed by the pause.\<close>

lemma power_loop_paused:
  assumes "map (obj_get name2id) names = map Some ids"
    and "\<forall>tr. \<forall>i\<in>set ids. \<not> isl (http w tr (power_request w s i level))"
    and "vmcur + length names < vmmax"
  shows "bluebird_each (vdcPower_each w level s name2id vmmax) names vmcur tr =
           (Inr (vmcur + length names), tr @ paused_calls w level s (zip names ids))"
  using assms
proof (induction names arbitrary: ids vmcur tr)
  case Nil
  then show ?case by (simp add: paused_calls_def)
next
  case (Cons vm names)
  from Cons.prems(1) obtain i ids' where ids: "ids = i # ids'"
    and vm: "obj_get name2id vm = Some i"
    and rest: "map (obj_get name2id) names = map Some ids'"
    by (cases ids) auto
  let ?tr = "tr @ [Log (chalk_blue w vm @ '': switching power ''
                    @ (if level then ''on'' else ''off''))]"
  have "\<not> isl (http w ?tr (power_request w s i level))"
    using Cons.prems(2) ids by simp
  then obtain res where res: "http w ?tr (power_request w s i level) = Inr res"
    by (cases "http w ?tr (power_request w s i level)") auto
  have step: "vdcPower_each w level s name2id vmmax vm vmcur tr =
      (Inr (vmcur + 1), tr @ power_call_events w level s (vm, i) @ [Timeout (10 * 1000)])"
    using vdcPower_each_resolved [OF vm res, of vmmax vmcur] Cons.prems(3) by simp
  have acc: "\<forall>tr. \<forall>i\<in>set ids'. \<not> isl (http w tr (power_request w s i level))"
    using Cons.prems(2) ids by simp
  have "bluebird_each (vdcPower_each w level s name2id vmmax) names (vmcur + 1)
          (tr @ power_call_events w level s (vm, i) @ [Timeout (10 * 1000)]) =
        (Inr (vmcur + 1 + length names),
         (tr @ power_call_events w level s (vm, i) @ [Timeout (10 * 1000)])
           @ paused_calls w level s (zip names ids'))"
    using Cons.IH [OF rest acc, of "vmcur + 1"] Cons.prems(3) by simp
  then show ?case
    using step ids by (simp add: paused_calls_def)
qed

text \<open>The whole list: the last call is not followed by a pause.\<close>

lemma power_loop_run:
  assumes ne: "names \<noteq> []"
    and resolves: "map (obj_get name2id) names = map Some ids"
    and accepted: "\<forall>tr. \<forall>i\<in>set ids. \<not> isl (http w tr (power_request w s i level))"
  shows "bluebird_each (vdcPower_each w level s name2id (length names)) names 0 tr =
           (Inr (length names),
            tr @ paused_calls w level s (butlast (zip names ids))
               @ power_call_events w level s (last (zip names ids)))"
proof -
  have len: "length ids = length names"
    using resolves by (metis length_map)
  obtain names' vm where names: "names = names' @ [vm]"
    using ne by (cases names rule: rev_cases) auto
  obtain ids' i where ids: "ids = ids' @ [i]"
    using len names by (cases ids rule: rev_cases) auto
  have len': "length ids' = length names'"
    using len names ids by simp
  have res_init: "map (obj_get name2id) names' = map Some ids'"
    and res_last: "obj_get name2id vm = Some i"
    using resolves names ids len' by simp_all
  have acc_init: "\<forall>tr. \<forall>i\<in>set ids'. \<not> isl (http w tr (power_request w s i level))"
    using accepted ids by simp
  let ?f = "vdcPower_each w level s name2id (length names)"
  let ?tr1 = "tr @ paused_calls w level s (zip names' ids')"
  let ?tr2 = "?tr1 @ [Log (chalk_blue w vm @ '': switching power ''
                  @ (if level then ''on'' else ''off''))]"
  have init: "bluebird_each ?f names' 0 tr = (Inr (length names'), ?tr1)"
    using power_loop_paused [OF res_init acc_init, of 0 "length names" tr] names by simp
  have "\<not> isl (http w ?tr2 (power_request w s i level))"
    using accepted ids by simp
  then obtain res where res: "http w ?tr2 (power_request w s i level) = Inr res"
    by (cases "http w ?tr2 (power_request w s i level)") auto
  have final: "?f vm (length names') ?tr1 =
      (Inr (length names), ?tr1 @ power_call_events w level s (vm, i))"
    using vdcPower_each_resolved [OF res_last res, of "length names" "length names'"] names
    by simp
  have run: "bluebird_each ?f (names' @ [vm]) 0 tr =
      (Inr (length names), ?tr1 @ power_call_events w level s (vm, i))"
    unfolding bluebird_each_append using init final by simp
  have zip: "zip names ids = zip names' ids' @ [(vm, i)]"
    using names ids len' by simp
  have bl: "butlast (zip names ids) = zip names' ids'"
    and la: "last (zip names ids) = (vm, i)"
    using zip by simp_all
  show ?thesis
    unfolding bl la using run names by simp
qed

text \<open>
  Claim C1. Take an invocation whose session is set up and whose server list gives the
  table \<open>name2id\<close>. When every name of the comma-separated list resolves in the table
  (to the identifiers \<open>ids\<close>, in list order) and the backend accepts each power call,
  the workflow ends without error, issues exactly one power call per name, in list
  order, pauses 10 seconds after every name but the last, and so pauses (count - 1)
  times 10 seconds in all.
\<close>

theorem power_calls_and_delays:
  assumes pw: "vdcPower_password w opts [] = (Inr opts', tr1)"
    and session: "vdcPower_session w opts' tr1 = (Inr s, tr2)"
    and servers: "vdcPower_servers w s tr2 = (Inr name2id, tr3)"
    and resolves: "map (obj_get name2id) (split_comma vms) = map Some ids"
    and accepted: "\<forall>tr. \<forall>i\<in>set ids. \<not> isl (http w tr (power_request w s i level))"
  shows "vdcPower w level vms opts [] =
           (Inr (),
            tr3 @ paused_calls w level s (butlast (zip (split_comma vms) ids))
                @ power_call_events w level s (last (zip (split_comma vms) ids))) \<and>
         power_calls (snd (vdcPower w level vms opts [])) =
           map (\<lambda>i. power_request w s i level) ids \<and>
         total_delay (snd (vdcPower w level vms opts [])) =
           (length (split_comma vms) - 1) * (10 * 1000)"
proof -
  define names where "names = split_comma vms"
  have ne: "names \<noteq> []" by (simp add: names_def)
  have res: "map (obj_get name2id) names = map Some ids"
    using resolves by (simp add: names_def)
  have len: "length names = length ids"
    using res by (metis length_map)
  have zne: "zip names ids \<noteq> []"
    using ne len by (cases names; cases ids) auto
  have loop: "vdcPower_loop w level vms s name2id tr3 =
      (Inr (length names),
       tr3 @ paused_calls w level s (butlast (zip names ids))
           @ power_call_events w level s (last (zip names ids)))"
    unfolding vdcPower_loop_def names_def [symmetric]
    by (rule power_loop_run [OF ne res accepted])
  have run: "vdcPower w level vms opts [] =
      (Inr (),
       tr3 @ paused_calls w level s (butlast (zip names ids))
           @ power_call_events w level s (last (zip names ids)))"
    using vdcPower_steps(1) [OF pw session servers, of level vms] loop by simp
  have quiet: "power_calls tr3 = []" "total_delay tr3 = 0"
    using vdcPower_steps(2,3) [OF pw session servers] by simp_all
  have calls: "power_calls (paused_calls w level s (butlast (zip names ids))
                  @ power_call_events w level s (last (zip names ids))) =
               map (\<lambda>i. power_request w s i level) ids"
    using power_calls_run [OF zne] map_snd_zip_same [OF len] by simp
  have delay: "total_delay (paused_calls w level s (butlast (zip names ids))
                  @ power_call_events w level s (last (zip names ids))) =
               (length names - 1) * (10 * 1000)"
    using total_delay_run [of w level s "zip names ids"] len by simp
  show ?thesis
    unfolding names_def [symmetric] run using calls delay quiet by simp
qed

theorem power_calls_and_delays_witness:
  "fst (vdcPower example_world True ''web1,web2'' example_opts []) = Inr () \<and>
   power_calls (snd (vdcPower example_world True ''web1,web2'' example_opts [])) =
     [power_request example_world example_session ''id3'' True,
      power_request example_world example_session ''id2'' True] \<and>
   total_delay (snd (vdcPower example_world True ''web1,web2'' example_opts [])) = 10000"
  using power_calls_and_delays
    [where w = example_world and opts = example_opts and opts' = example_opts
       and ?tr1.0 = "[]" and s = example_session
       and ?tr2.0 = "snd (vdcPower_session example_world example_opts [])"
       and name2id = "name2id_of example_servers"
       and ?tr3.0 = "snd (vdcPower_servers example_world example_session
                            (snd (vdcPower_session example_world example_opts [])))"
       and vms = "''web1,web2''" and ids = "[''id3'', ''id2'']" and level = True]
  by (simp add: vdcPower_password_def vdcPower_session_def vdcPower_servers_def
        example_opts_def example_world_def example_panel_def example_session_def
        example_servers_def name2id_of_def obj_set_def obj_get_def match_here_def
        is_white_space_def is_line_terminator_def login_request_def panel_request_def
        servers_request_def)

text \<open>
  Claim C2. Take an invocation whose session is set up and whose server list gives the
  table \<open>name2id\<close>. When the list holds a name with no entry in the table, the names
  before it resolve and the backend accepts their power calls, the workflow throws an
  error that names this VM. The power calls made are exactly those of the names before
  it, each with the requested level: none is made for the name or behind it, and none
  is undone.
\<close>

theorem power_invalid_name:
  assumes pw: "vdcPower_password w opts [] = (Inr opts', tr1)"
    and session: "vdcPower_session w opts' tr1 = (Inr s, tr2)"
    and servers: "vdcPower_servers w s tr2 = (Inr name2id, tr3)"
    and names: "split_comma vms = pre @ vm # post"
    and resolves: "map (obj_get name2id) pre = map Some ids"
    and absent: "obj_get name2id vm = None"
    and accepted: "\<forall>tr. \<forall>i\<in>set ids. \<not> isl (http w tr (power_request w s i level))"
  shows \<open>vdcPower w level vms opts [] =
           (Inl (Error (''invalid VM name "'' @ vm @ ''"'')),
            tr3 @ paused_calls w level s (zip pre ids)) \<and>
         power_calls (snd (vdcPower w level vms opts [])) =
           map (\<lambda>i. power_request w s i level) ids\<close>
proof -
  let ?f = "vdcPower_each w level s name2id (length (pre @ vm # post))"
  have len: "length pre = length ids"
    using resolves by (metis length_map)
  have init: "bluebird_each ?f pre 0 tr3 =
      (Inr (length pre), tr3 @ paused_calls w level s (zip pre ids))"
    using power_loop_paused [OF resolves accepted, of 0 "length (pre @ vm # post)" tr3]
    by simp
  have \<open>bluebird_each ?f (pre @ vm # post) 0 tr3 =
      (Inl (Error (''invalid VM name "'' @ vm @ ''"'')),
       tr3 @ paused_calls w level s (zip pre ids))\<close>
    unfolding bluebird_each_append using init vdcPower_each_unresolved [OF absent] by simp
  then have loop: \<open>vdcPower_loop w level vms s name2id tr3 =
      (Inl (Error (''invalid VM name "'' @ vm @ ''"'')),
       tr3 @ paused_calls w level s (zip pre ids))\<close>
    by (simp add: vdcPower_loop_def names)
  have run: \<open>vdcPower w level vms opts [] =
      (Inl (Error (''invalid VM name "'' @ vm @ ''"'')),
       tr3 @ paused_calls w level s (zip pre ids))\<close>
    using vdcPower_steps(1) [OF pw session servers, of level vms] loop by simp
  have quiet: "power_calls tr3 = []"
    using vdcPower_steps(2) [OF pw session servers] by simp
  show ?thesis
    unfolding run using map_snd_zip_same [OF len] quiet by simp
qed

theorem power_invalid_name_witness:
  \<open>fst (vdcPower example_world False ''web2,nope,web1'' example_opts []) =
     Inl (Error ''invalid VM name "nope"'') \<and>
   power_calls (snd (vdcPower example_world False ''web2,nope,web1'' example_opts [])) =
     [power_request example_world example_session ''id2'' False]\<close>
  using power_invalid_name
    [where w = example_world and opts = example_opts and opts' = example_opts
       and ?tr1.0 = "[]" and s = example_session
       and ?tr2.0 = "snd (vdcPower_session example_world example_opts [])"
       and name2id = "name2id_of example_servers"
       and ?tr3.0 = "snd (vdcPower_servers example_world example_session
                            (snd (vdcPower_session example_world example_opts [])))"
       and vms = "''web2,nope,web1''" and pre = "[''web2'']" and vm = "''nope''"
       and post = "[''web1'']" and ids = "[''id2'']" and level = False]
  by (simp add: vdcPower_password_def vdcPower_session_def vdcPower_servers_def
        example_opts_def example_world_def example_panel_def example_session_def
        example_servers_def name2id_of_def obj_set_def obj_get_def match_here_def
        is_white_space_def is_line_terminator_def login_request_def panel_request_def
        servers_request_def)

section \<open>Session discovery\<close>

lemma match_here_marker: "match_here marker s = Some g \<Longrightarrow> prefix marker s"
  by (auto simp: match_here_def prefix_def split: if_splits) (metis append_take_drop_id)

lemma match_marker_sublist: "match_marker marker s = Some g \<Longrightarrow> sublist marker s"
proof (induction s)
  case Nil
  then show ?case using match_here_marker by fastforce
next
  case (Cons c cs)
  show ?case
  proof (cases "match_here marker (c # cs)")
    case None
    with Cons show ?thesis by (simp add: sublist_Cons_right)
  next
    case (Some a)
    then show ?thesis using match_here_marker prefix_imp_sublist by blast
  qed
qed

lemma match_marker_absent: "\<not> sublist marker s \<Longrightarrow> match_marker marker s = None"
  using match_marker_sublist by (cases "match_marker marker s") auto

text \<open>
  Claim C3. When the login succeeds and the panel page that comes back lacks one of
  the three markers, the workflow fails with the \<open>TypeError\<close> of the destructuring,
  and the panel request is the last thing it did: neither the server list nor a power
  call is requested.
\<close>

theorem panel_without_marker:
  assumes pw: "vdcPower_password w opts tr = (Inr opts', tr1)"
    and login: "http w tr1 (login_request w opts') = Inr res0"
    and panel: "http w (tr1 @ [Request (login_request w opts')]) (panel_request w opts') = Inr res"
    and missing: \<open>\<not> sublist ''"user":'' (res_text res) \<or> \<not> sublist ''"token":'' (res_text res)
                   \<or> \<not> sublist ''"api":'' (res_text res)\<close>
  shows "vdcPower w level vms opts tr =
           (Inl (TypeError (msg_not_iterable w)),
            tr1 @ [Request (login_request w opts'), Request (panel_request w opts')])"
proof -
  have \<open>match_marker ''"user":'' (res_text res) = None \<or>
        match_marker ''"token":'' (res_text res) = None \<or>
        match_marker ''"api":'' (res_text res) = None\<close>
    using missing by (elim disjE) (simp_all add: match_marker_absent)
  then have "vdcPower_session w opts' tr1 =
      (Inl (TypeError (msg_not_iterable w)),
       tr1 @ [Request (login_request w opts'), Request (panel_request w opts')])"
    using login panel
    by (auto simp: vdcPower_session_def io_bind_apply split: option.splits)
  then show ?thesis
    using pw by (simp add: vdcPower_def)
qed

theorem panel_without_marker_witness:
  "vdcPower broken_world True ''web1'' example_opts [] =
     (Inl (TypeError ''null is not iterable''),
      [Request (login_request broken_world example_opts),
       Request (panel_request broken_world example_opts)])"
  using panel_without_marker
    [where w = broken_world and opts = example_opts and opts' = example_opts and tr = "[]"
       and ?tr1.0 = "[]" and level = True and vms = "''web1''"]
  by (simp add: vdcPower_password_def example_opts_def broken_world_def example_world_def
        sublist_Cons_right)

section \<open>The table from names to identifiers\<close>

lemma fold_obj_set_other:
  "\<forall>x\<in>set xs. name (snd x) \<noteq> n \<Longrightarrow>
     fold (\<lambda>(ident, server) name2id. obj_set name2id (name server) ident) xs m n = m n"
  by (induction xs arbitrary: m) (auto simp: obj_set_def)

text \<open>
  For every name but \<^verbatim>\<open>__proto__\<close>, the table holds the identifier of the last server
  of that name in the order of the list.
\<close>

lemma name2id_of_last:
  assumes "n \<noteq> ''__proto__''"
    and "servers = pre @ (i, srv) # post"
    and "name srv = n"
    and "\<forall>x\<in>set post. name (snd x) \<noteq> n"
  shows "obj_get (name2id_of servers) n = Some i"
proof -
  let ?step = "\<lambda>(ident, server) name2id. obj_set name2id (name server) ident"
  have "fold ?step servers Map.empty n = obj_set (fold ?step pre Map.empty) n i n"
    using assms(2,3) fold_obj_set_other [OF assms(4)] by simp
  then show ?thesis
    using assms(1) by (simp add: name2id_of_def obj_get_def obj_set_def)
qed

text \<open>No list of servers gives the name \<^verbatim>\<open>__proto__\<close> an entry.\<close>

lemma fold_obj_set_proto:
  "fold (\<lambda>(ident, server) name2id. obj_set name2id (name server) ident) xs m ''__proto__''
     = m ''__proto__''"
  by (induction xs arbitrary: m) (auto simp: obj_set_def)

lemma name2id_of_proto: "obj_get (name2id_of servers) ''__proto__'' = None"
  by (simp add: name2id_of_def obj_get_def fold_obj_set_proto)

text \<open>
  Claim C10 says that a display name shared by several servers resolves to the last of
  them, without an error. Lemma \<open>name2id_of_last\<close> gives this for every name but one.
  For that one the code departs from the claim: two servers share the display name
  \<^verbatim>\<open>__proto__\<close>, the table has no entry for the name, and the power command for it
  ends with the error of an invalid VM name, after the server list and before any
  power call.
\<close>

theorem proto_name_rejected:
  \<open>obj_get (name2id_of proto_servers) ''__proto__'' = None \<and>
   vdcPower proto_world True ''__proto__'' example_opts [] =
     (Inl (Error ''invalid VM name "__proto__"''),
      [Request (login_request proto_world example_opts),
       Request (panel_request proto_world example_opts),
       Request (servers_request proto_world example_session)])\<close>
proof -
  have pw: "vdcPower_password proto_world example_opts [] = (Inr example_opts, [])"
    by (simp add: vdcPower_password_def example_opts_def)
  have session: "vdcPower_session proto_world example_opts [] =
      (Inr example_session,
       [Request (login_request proto_world example_opts),
        Request (panel_request proto_world example_opts)])"
    by (simp add: vdcPower_session_def proto_world_def example_world_def example_panel_def
          example_session_def match_here_def is_white_space_def is_line_terminator_def)
  have servers: "vdcPower_servers proto_world example_session
       [Request (login_request proto_world example_opts),
        Request (panel_request proto_world example_opts)] =
      (Inr (name2id_of proto_servers),
       [Request (login_request proto_world example_opts),
        Request (panel_request proto_world example_opts),
        Request (servers_request proto_world example_session)])"
    by (simp add: vdcPower_servers_def proto_world_def example_world_def)
  have loop: \<open>vdcPower_loop proto_world True ''__proto__'' example_session
       (name2id_of proto_servers) tr =
      (Inl (Error ''invalid VM name "__proto__"''), tr)\<close> for tr
    by (simp add: vdcPower_loop_def vdcPower_each_unresolved [OF name2id_of_proto])
  show ?thesis
    using vdcPower_steps(1) [OF pw session servers, of True "''__proto__''"] loop
    by (simp add: name2id_of_proto)
qed

section \<open>The remote command loop\<close>

lemma sshCommand_each_apply:
  "sshCommand_each w cmd opts h u tr =
     (case ssh_connect w (tr @ [Log (chalk_blue w (ssh_prefix opts h) @ ''$ '' @ cmd)])
             (connect_config opts h) of
        Inl e \<Rightarrow>
          (Inl e, tr @ [Log (chalk_blue w (ssh_prefix opts h) @ ''$ '' @ cmd),
                        Connect (connect_config opts h)])
      | Inr v \<Rightarrow>
          (case ssh_execCommand w
                  (tr @ [Log (chalk_blue w (ssh_prefix opts h) @ ''$ '' @ cmd),
                         Connect (connect_config opts h)]) h cmd of
             Inl e \<Rightarrow>
               (Inl e, tr @ [Log (chalk_blue w (ssh_prefix opts h) @ ''$ '' @ cmd),
                             Connect (connect_config opts h), Exec h cmd True])
           | Inr stdout \<Rightarrow>
               (Inr (), tr @ [Log (chalk_blue w (ssh_prefix opts h) @ ''$ '' @ cmd),
                              Connect (connect_config opts h), Exec h cmd True]
                           @ (if stdout \<noteq> []
                              then [Log (replace_line_starts (chalk_blue w (ssh_prefix opts h)) stdout)]
                              else []))))"
  by (simp add: sshCommand_each_def io_bind_apply split: sum.splits)

lemma sshCommand_each_connections:
  "connections (snd (sshCommand_each w cmd opts h u tr)) = connections tr @ [connect_config opts h]"
  by (simp add: sshCommand_each_apply split: sum.splits)

lemma ssh_loop_connections:
  "bluebird_each (sshCommand_each w cmd opts) hs () tr = (Inr (), tr') \<Longrightarrow>
     connections tr' = connections tr @ map (connect_config opts) hs"
proof (induction hs arbitrary: tr)
  case Nil
  then show ?case by simp
next
  case (Cons h hs)
  obtain r tr1 where each: "sshCommand_each w cmd opts h () tr = (r, tr1)"
    by (cases "sshCommand_each w cmd opts h () tr")
  with Cons.prems obtain rest: "bluebird_each (sshCommand_each w cmd opts) hs () tr1 = (Inr (), tr')"
    by (cases r) auto
  have "connections tr1 = connections tr @ [connect_config opts h]"
    using sshCommand_each_connections [of w cmd opts h "()" tr] each by simp
  then show ?case
    using Cons.IH [OF rest] by simp
qed

lemma sshCommand_password_connections:
  "sshCommand_password w opts tr = (r, tr') \<Longrightarrow> connections tr' = connections tr"
  by (auto simp: sshCommand_password_def io_bind_apply split: if_splits sum.splits)

lemma connections_error_handler [simp]: "connections (error_handler w e) = []"
  by (simp add: error_handler_def)

subsection \<open>Hosts that all answer\<close>

text \<open>
  When every host connects and runs the command, each host of the list gets its
  connection, in list order, and only the hosts with output get a line printed.
\<close>

lemma exec_run_ok:
  assumes "\<forall>tr. \<forall>h\<in>set hs. ssh_connect w tr (connect_config opts h) = Inr () \<and>
                               ssh_execCommand w tr h cmd = Inr (out h)"
  shows "bluebird_each (sshCommand_each w cmd opts) hs () tr =
           (Inr (), tr @ concat (map (exec_events w cmd opts out) hs))"
  using assms
proof (induction hs arbitrary: tr)
  case Nil
  then show ?case by simp
next
  case (Cons h hs)
  have each: "sshCommand_each w cmd opts h () tr = (Inr (), tr @ exec_events w cmd opts out h)"
    using Cons.prems by (simp add: sshCommand_each_apply exec_events_def)
  have "bluebird_each (sshCommand_each w cmd opts) hs () (tr @ exec_events w cmd opts out h) =
      (Inr (), (tr @ exec_events w cmd opts out h) @ concat (map (exec_events w cmd opts out) hs))"
    using Cons.IH [of "tr @ exec_events w cmd opts out h"] Cons.prems by simp
  then show ?case using each by simp
qed

lemma connections_exec_events [simp]:
  "connections (exec_events w cmd opts out h) = [connect_config opts h]"
  by (simp add: exec_events_def)

lemma connections_exec_run:
  "connections (concat (map (exec_events w cmd opts out) hs)) = map (connect_config opts) hs"
  by (induction hs) simp_all

lemma exec_workflow_ok:
  assumes pw: "sshCommand_password w opts [] = (Inr opts', tr0)"
    and ok: "\<forall>tr. \<forall>h\<in>set (split_comma hosts).
               ssh_connect w tr (connect_config opts' h) = Inr () \<and>
               ssh_execCommand w tr h cmd = Inr (out h)"
  shows "sshCommand w cmd hosts opts [] =
           (Inr (), tr0 @ concat (map (exec_events w cmd opts' out) (split_comma hosts)))"
    and "connections (snd (sshCommand w cmd hosts opts [])) =
           map (connect_config opts') (split_comma hosts)"
proof -
  show run: "sshCommand w cmd hosts opts [] =
      (Inr (), tr0 @ concat (map (exec_events w cmd opts' out) (split_comma hosts)))"
    using pw exec_run_ok [OF ok, of tr0] by (simp add: sshCommand_def)
  have "connections tr0 = []"
    using sshCommand_password_connections [OF pw] by simp
  then show "connections (snd (sshCommand w cmd hosts opts [])) =
      map (connect_config opts') (split_comma hosts)"
    unfolding run by (simp add: connections_exec_run)
qed

text \<open>
  A replacement without a dollar sign is put in front of every line as it stands.
\<close>

lemma get_substitution_plain:
  "CHR ''$'' \<notin> set replacement \<Longrightarrow> get_substitution left right replacement = replacement"
  by (induction left right replacement rule: get_substitution.induct) auto

lemma js_lines_not_Nil [simp]: "js_lines s \<noteq> []"
  by (induction s) auto

lemma concat_js_lines: "concat (js_lines s) = s"
proof (induction s)
  case Nil
  then show ?case by simp
next
  case (Cons c cs)
  obtain l ls where L: "js_lines cs = l # ls"
    by (cases "js_lines cs") auto
  then show ?case using Cons by auto
qed

lemma replace_scan_plain:
  "CHR ''$'' \<notin> set p \<Longrightarrow>
     p @ replace_scan p left s = concat (map ((@) p) (js_lines s))"
proof (induction s arbitrary: left)
  case Nil
  then show ?case by simp
next
  case (Cons c cs)
  have ih: "p @ replace_scan p (left @ [c]) cs = concat (map ((@) p) (js_lines cs))"
    using Cons by simp
  show ?case
  proof (cases "is_line_terminator c")
    case True
    then show ?thesis
      using ih Cons.prems by (simp add: get_substitution_plain)
  next
    case False
    obtain l ls where L: "js_lines cs = l # ls"
      by (cases "js_lines cs") auto
    then have "replace_scan p (left @ [c]) cs = l @ concat (map ((@) p) ls)"
      using ih by simp
    then show ?thesis
      using False L by simp
  qed
qed

lemma replace_line_starts_plain:
  "CHR ''$'' \<notin> set p \<Longrightarrow> replace_line_starts p s = concat (map ((@) p) (js_lines s))"
  by (simp add: replace_line_starts_def get_substitution_plain replace_scan_plain)

text \<open>
  Claim C4 says that every printed line of output carries the prefix made of user
  name and host. Lemmas \<open>exec_workflow_ok\<close> and \<open>replace_line_starts_plain\<close> give the
  claim for hosts that all answer and a prefix without a dollar sign. With a dollar
  sign the code departs from it: the user name \<^verbatim>\<open>a$$\<close> runs a command on host
  \<open>h1\<close>, which prints one line. The line that announces the command carries the
  prefix \<^verbatim>\<open>a$$@h1: \<close>, but the line of output is printed behind \<^verbatim>\<open>a$@h1: \<close>,
  since the prefix is the replacement string of \<^verbatim>\<open>replace\<close>, where two dollar signs
  stand for one.
\<close>

theorem dollar_prefix:
  "sshCommand example_world ''id'' ''h1'' dollar_opts [] =
     (Inr (),
      [Log ''a$$@h1: $ id'',
       Connect \<lparr>ssh_host = ''h1'', ssh_username = JStr ''a$$'', ssh_password = JStr ''pw'',
                ssh_readyTimeout = 5000\<rparr>,
       Exec ''h1'' ''id'' True,
       Log ''a$@h1: up 1 day''])"
  by (simp add: sshCommand_def sshCommand_password_def dollar_opts_def sshCommand_each_apply
        example_world_def ssh_prefix_def connect_config_def replace_line_starts_def
        is_line_terminator_def)

text \<open>
  Claim C5. In an \<^verbatim>\<open>exec\<close> invocation, let the hosts before \<open>h\<close> connect and run
  the command, and let the connection to \<open>h\<close>, or the command on it, fail with the
  error \<open>e\<close>. Then the workflow fails with \<open>e\<close> and the failed call is the last thing
  it did; the connections opened are those to the hosts before \<open>h\<close> and to \<open>h\<close>, one
  each and in list order, none is opened to a later host, and the process exits with
  status 1.
\<close>

theorem exec_first_failure:
  assumes exec: "cmd_name c = ''exec''"
    and pw: "sshCommand_password w (cmd_opts c) [] = (Inr opts', tr0)"
    and hosts: "split_comma (hostName (cmd_args c)) = pre @ h # post"
    and earlier: "bluebird_each (sshCommand_each w (command (cmd_args c)) opts') pre () tr0
                    = (Inr (), tr1)"
    and fails:
      "ssh_connect w (tr1 @ [Log (chalk_blue w (ssh_prefix opts' h) @ ''$ '' @ command (cmd_args c))])
           (connect_config opts' h) = Inl e \<or>
       (ssh_connect w (tr1 @ [Log (chalk_blue w (ssh_prefix opts' h) @ ''$ '' @ command (cmd_args c))])
           (connect_config opts' h) = Inr () \<and>
        ssh_execCommand w
           (tr1 @ [Log (chalk_blue w (ssh_prefix opts' h) @ ''$ '' @ command (cmd_args c)),
                   Connect (connect_config opts' h)]) h (command (cmd_args c)) = Inl e)"
  shows "sshCommand w (command (cmd_args c)) (hostName (cmd_args c)) (cmd_opts c) [] =
           (Inl e,
            tr1 @ [Log (chalk_blue w (ssh_prefix opts' h) @ ''$ '' @ command (cmd_args c)),
                   Connect (connect_config opts' h)]
                @ (if isl (ssh_connect w
                             (tr1 @ [Log (chalk_blue w (ssh_prefix opts' h) @ ''$ ''
                                            @ command (cmd_args c))])
                             (connect_config opts' h))
                   then [] else [Exec h (command (cmd_args c)) True])) \<and>
         connections (snd (main w (Some c))) = map (connect_config opts') (pre @ [h]) \<and>
         fst (main w (Some c)) = 1"
proof -
  let ?cmd = "command (cmd_args c)"
  let ?f = "sshCommand_each w ?cmd opts'"
  let ?tr2 = "tr1 @ [Log (chalk_blue w (ssh_prefix opts' h) @ ''$ '' @ ?cmd),
                     Connect (connect_config opts' h)]
                  @ (if isl (ssh_connect w
                               (tr1 @ [Log (chalk_blue w (ssh_prefix opts' h) @ ''$ '' @ ?cmd)])
                               (connect_config opts' h))
                     then [] else [Exec h ?cmd True])"
  have each: "?f h () tr1 = (Inl e, ?tr2)"
    using fails by (auto simp: sshCommand_each_apply)
  define tr2 where "tr2 = ?tr2"
  note each = each [folded tr2_def]
  have c2: "connections tr2 = connections tr1 @ [connect_config opts' h]"
    using sshCommand_each_connections [of w ?cmd opts' h "()" tr1] each by simp
  have c1: "connections tr1 = connections tr0 @ map (connect_config opts') pre"
    using ssh_loop_connections [OF earlier] .
  have c0: "connections tr0 = []"
    using sshCommand_password_connections [OF pw] by simp
  have loop: "bluebird_each ?f (pre @ h # post) () tr0 = (Inl e, tr2)"
    unfolding bluebird_each_append using earlier each by simp
  have run: "sshCommand w ?cmd (hostName (cmd_args c)) (cmd_opts c) [] = (Inl e, tr2)"
    using pw loop hosts by (simp add: sshCommand_def)
  then have "main w (Some c) = (1, tr2 @ error_handler w e)"
    using exec by (simp add: main_def dispatch_def)
  then show ?thesis
    using run c0 c1 c2 unfolding tr2_def by simp
qed

theorem exec_first_failure_witness:
  "fst (sshCommand example_world ''uptime'' ''h1,down,h2'' (cmd_opts example_exec) [])
     = Inl (Rejected ''Timed out'') \<and>
   last (snd (sshCommand example_world ''uptime'' ''h1,down,h2'' (cmd_opts example_exec) []))
     = Connect (connect_config (cmd_opts example_exec) ''down'') \<and>
   connections (snd (main example_world (Some example_exec))) =
     [connect_config (cmd_opts example_exec) ''h1'', connect_config (cmd_opts example_exec) ''down''] \<and>
   fst (main example_world (Some example_exec)) = 1"
  using exec_first_failure
    [where c = example_exec and w = example_world and opts' = "cmd_opts example_exec"
       and ?tr0.0 = "[]" and pre = "[''h1'']" and h = "''down''" and post = "[''h2'']"
       and e = "Rejected ''Timed out''"
       and ?tr1.0 = "snd (sshCommand_each example_world ''uptime'' (cmd_opts example_exec) ''h1'' () [])"]
  by (simp add: example_exec_def example_world_def sshCommand_password_def
        sshCommand_each_apply connect_config_def)

section \<open>Exit status\<close>

text \<open>
  Claim C6. When no command matched, the exit status is 1 and nothing was attempted.
  When the dispatched workflow ends without error, the exit status is 0. When it ends
  with an error, the exit status is 1, and the last two lines printed are the message
  of the error and its dump.
\<close>

theorem exit_codes:
  "main w None = (1, []) \<and>
   (fst (dispatch w c []) = Inr () \<longrightarrow> main w (Some c) = (0, snd (dispatch w c []))) \<and>
   (fst (dispatch w c []) = Inl e \<longrightarrow>
      main w (Some c) =
        (1, snd (dispatch w c [])
              @ [Log (''vdc: '' @ chalk_red w ''ERROR'' @ '': '' @ err_str e),
                 Log (''vdc: '' @ chalk_red w ''ERROR'' @ '': '' @ util_inspect w e)]))"
  by (cases "dispatch w c []") (simp add: main_def error_handler_def)

theorem exit_codes_witness:
  "main example_world None = (1, []) \<and>
   main example_world (Some example_exec) =
     (1, snd (dispatch example_world example_exec [])
           @ [Log ''vdc: ERROR: Timed out'', Log ''vdc: ERROR: Timed out'']) \<and>
   fst (main example_world (Some example_power)) = 0"
proof -
  have fails: "fst (dispatch example_world example_exec []) = Inl (Rejected ''Timed out'')"
    by (simp add: dispatch_def example_exec_def sshCommand_def sshCommand_password_def
          sshCommand_each_apply example_world_def connect_config_def)
  have "fst (vdcPower example_world True ''web1,web2'' example_opts []) = Inr ()"
    by (simp add: vdcPower_def vdcPower_password_def vdcPower_session_def vdcPower_servers_def
          vdcPower_loop_def vdcPower_each_def example_opts_def example_world_def
          example_panel_def example_servers_def name2id_of_def obj_set_def obj_get_def
          match_here_def is_white_space_def is_line_terminator_def io_bind_apply)
  then have ends: "fst (dispatch example_world example_power []) = Inr ()"
    by (simp add: dispatch_def example_power_def)
  show ?thesis
    using exit_codes [of example_world example_exec "Rejected ''Timed out''"] fails
      exit_codes [of example_world example_power] ends
    by (simp add: example_world_def)
qed

section \<open>The password\<close>

lemma vdcPower_password_resolver:
  "vdcPower_password w opts = credential_resolver w '' vDC password:'' opts"
  by (cases "password opts") (simp_all add: vdcPower_password_def credential_resolver_def)

lemma sshCommand_password_resolver:
  "sshCommand_password w opts = credential_resolver w '' SSH password:'' opts"
  by (cases "password opts") (simp_all add: sshCommand_password_def credential_resolver_def)

lemma prompts_resolver:
  "prompts (snd (credential_resolver w label opts tr)) =
     prompts tr @ (if typeof (password opts) \<noteq> ''string'' then [js_str (username opts) @ label]
                   else [])"
  by (cases "password opts")
     (simp_all add: credential_resolver_def io_bind_apply split: sum.splits)

lemma sshCommand_each_keeps: "keeps prompts (sshCommand_each w cmd opts h u)"
  by (simp add: sshCommand_each_def keeps_bind keeps_await keeps_log)

text \<open>
  Claim C7. Both workflows resolve the password as the credential resolver does, each
  with its own label. In an invocation of either workflow the prompt is shown, once,
  if and only if the password option is not a string; a password that is a string is
  handed on as it is, and nothing is asked.
\<close>

theorem password_prompt_iff:
  "vdcPower_password w opts = credential_resolver w '' vDC password:'' opts \<and>
   sshCommand_password w opts = credential_resolver w '' SSH password:'' opts \<and>
   prompts (snd (vdcPower w level vms opts [])) =
     (if typeof (password opts) \<noteq> ''string'' then [js_str (username opts) @ '' vDC password:'']
      else []) \<and>
   prompts (snd (sshCommand w cmd hosts opts [])) =
     (if typeof (password opts) \<noteq> ''string'' then [js_str (username opts) @ '' SSH password:'']
      else []) \<and>
   (typeof (password opts) = ''string'' \<longrightarrow>
      credential_resolver w label opts tr = (Inr opts, tr))"
proof -
  have v: "prompts (snd (vdcPower w level vms opts [])) =
      prompts (snd (vdcPower_password w opts []))"
    unfolding vdcPower_def
    by (rule obs_bind)
       (simp add: keeps_bind vdcPower_session_keeps vdcPower_servers_keeps vdcPower_loop_keeps)
  have s: "prompts (snd (sshCommand w cmd hosts opts [])) =
      prompts (snd (sshCommand_password w opts []))"
    unfolding sshCommand_def
    by (rule obs_bind) (simp add: keeps_each sshCommand_each_keeps)
  have r: "typeof (password opts) = ''string'' \<longrightarrow>
      credential_resolver w label opts tr = (Inr opts, tr)"
    by (cases "password opts") (simp_all add: credential_resolver_def)
  show ?thesis
    using v s r
    by (simp add: vdcPower_password_resolver sshCommand_password_resolver prompts_resolver)
qed

theorem password_prompt_iff_witness:
  "prompts (snd (vdcPower example_world True ''web1'' example_opts [])) = [] \<and>
   prompts (snd (sshCommand example_world ''uptime'' ''h1'' (example_opts\<lparr>password := JNull\<rparr>) []))
     = [''me SSH password:''] \<and>
   credential_resolver example_world '' SSH password:'' example_opts [] = (Inr example_opts, [])"
  using password_prompt_iff [of example_world example_opts True "''web1''" "''uptime''" "''h1''"
      "'' SSH password:''" "[]"]
    password_prompt_iff [of example_world "example_opts\<lparr>password := JNull\<rparr>" True "''web1''"
      "''uptime''" "''h1''" "'' SSH password:''" "[]"]
  by (simp add: example_opts_def)

text \<open>
  Claim C9. When the password is a string, or the prompt answers, the password step
  of either workflow ends with the options it was given, changed in the password field
  alone. That field is then a string: the one supplied, or the one typed.
\<close>

theorem password_step_frame:
  assumes "typeof (password opts) = ''string'' \<or>
           (inquirer_prompt w tr (js_str (username opts) @ '' vDC password:'') = Inr a \<and>
            inquirer_prompt w tr (js_str (username opts) @ '' SSH password:'') = Inr b)"
  shows "fst (vdcPower_password w opts tr) =
           Inr (opts\<lparr>password := (case password opts of JStr p \<Rightarrow> JStr p | _ \<Rightarrow> JStr a)\<rparr>) \<and>
         fst (sshCommand_password w opts tr) =
           Inr (opts\<lparr>password := (case password opts of JStr p \<Rightarrow> JStr p | _ \<Rightarrow> JStr b)\<rparr>)"
  using assms
  by (cases "password opts")
     (auto simp: vdcPower_password_def sshCommand_password_def io_bind_apply)

theorem password_step_frame_witness:
  "fst (vdcPower_password example_world (example_opts\<lparr>password := JUndefined\<rparr>) []) =
     Inr (example_opts\<lparr>password := JStr ''secret''\<rparr>) \<and>
   fst (sshCommand_password example_world (example_opts\<lparr>password := JUndefined\<rparr>) []) =
     Inr (example_opts\<lparr>password := JStr ''secret''\<rparr>)"
  using password_step_frame
    [of "example_opts\<lparr>password := JUndefined\<rparr>" example_world "[]" "''secret''" "''secret''"]
  by (simp add: example_world_def example_opts_def)

section \<open>Defaults of the options\<close>

text \<open>
  Claim C8. An invocation of \<^verbatim>\<open>power-on\<close> or \<^verbatim>\<open>power-off\<close> that gives no location
  gets the location \<^verbatim>\<open>https://vdc.msg.systems\<close>, and an invocation of \<^verbatim>\<open>exec\<close> that
  gives no user name gets the user name \<^verbatim>\<open>root\<close>.
\<close>

theorem option_defaults:
  "(given ''location'' = None \<longrightarrow>
      location (caporal_opts power_on_decl given) = JStr ''https://vdc.msg.systems'' \<and>
      location (caporal_opts power_off_decl given) = JStr ''https://vdc.msg.systems'') \<and>
   (given ''username'' = None \<longrightarrow> username (caporal_opts exec_decl given) = JStr ''root'')"
  by (simp add: caporal_opts_def option_value_def power_on_decl_def power_off_decl_def
        exec_decl_def)

theorem option_defaults_witness:
  "location (caporal_opts power_on_decl Map.empty) = JStr ''https://vdc.msg.systems'' \<and>
   location (caporal_opts power_off_decl Map.empty) = JStr ''https://vdc.msg.systems'' \<and>
   username (caporal_opts exec_decl Map.empty) = JStr ''root''"
  using option_defaults [of Map.empty] by simp

end
